theory Spec2Isabelle
  imports Main "HOL-Library.Word"
begin

section \<open>Python values, exceptions and serialized messages\<close>

text \<open>
  The exceptions that the worker's code names in an \<open>except\<close> clause or that its
  statements raise. \<open>OtherException\<close> stands for any exception class that no handler of
  the worker names.
\<close>

datatype exn =
    ServerDisconnectedError
  | UnidentifiedImageError
  | WandException
  | TypeError
  | BufferError
  | UnicodeDecodeError
  | JSONDecodeError
  | ZeroDivisionError
  | AttributeError
  | OSError
  | OtherException string

text \<open>
  The Python values that the worker puts into its outbound messages. A \<open>dict\<close> is an
  association list in insertion order. \<open>PyBytes\<close> is a \<open>bytes\<close> object, which
  \<open>json.dumps\<close> refuses with \<open>TypeError\<close>.
\<close>

datatype pyval =
    PyNone
  | PyInt int
  | PyStr string
  | PyBytes "8 word list"
  | PyList "pyval list"
  | PyDict "(string \<times> pyval) list"

fun json_serializable :: "pyval \<Rightarrow> bool" where
  "json_serializable PyNone = True"
| "json_serializable (PyInt n) = True"
| "json_serializable (PyStr s) = True"
| "json_serializable (PyBytes b) = False"
| "json_serializable (PyList vs) = list_all json_serializable vs"
| "json_serializable (PyDict kvs) = list_all json_serializable (map snd kvs)"

text \<open>
  \<open>bytes(json.dumps(msg), 'utf-8')\<close>: the serialized message is represented by the JSON
  document it encodes; \<open>json.dumps\<close> writes one member per key of a \<open>dict\<close>, named by
  the key, in insertion order, and \<open>None\<close> as \<open>null\<close>.
\<close>

datatype encoded = Json_utf8 pyval

definition json_dumps :: "pyval \<Rightarrow> exn + encoded" where
  "json_dumps msg = (if json_serializable msg then Inr (Json_utf8 msg) else Inl TypeError)"

section \<open>The batching publisher: \<open>AsyncProducer\<close> in \<open>worker/message.py\<close>\<close>

text \<open>
  The Kafka client is an external object. Its behaviour is a script: the outcome of each
  coming call of \<open>produce\<close> (\<open>None\<close>: the message is accepted; \<open>Some e\<close>: the call
  raises \<open>e\<close>); a call after the end of the script accepts. \<open>calls\<close> logs every call of
  \<open>produce\<close>, \<open>delivered\<close> the accepted ones, \<open>polls\<close> the timeouts given to \<open>poll\<close>.
\<close>

record kafka =
  outcomes :: "exn option list"
  calls :: "(string \<times> encoded) list"
  delivered :: "(string \<times> encoded) list"
  polls :: "nat list"

definition produce :: "string \<Rightarrow> encoded \<Rightarrow> kafka \<Rightarrow> exn option \<times> kafka" where
  "produce topic msg k =
     (case outcomes k of
        [] \<Rightarrow> (None, k\<lparr>calls := calls k @ [(topic, msg)],
                        delivered := delivered k @ [(topic, msg)]\<rparr>)
      | r # rs \<Rightarrow>
          (r, k\<lparr>outcomes := rs,
                calls := calls k @ [(topic, msg)],
                delivered := (if r = None then delivered k @ [(topic, msg)] else delivered k)\<rparr>))"

definition poll :: "nat \<Rightarrow> kafka \<Rightarrow> kafka" where
  "poll timeout k = k\<lparr>polls := polls k @ [timeout]\<rparr>"

record AsyncProducer =
  frequency :: nat
  producer :: kafka
  topic_name :: string
  messages :: "encoded list"

definition AsyncProducer_init :: "kafka \<Rightarrow> string \<Rightarrow> nat \<Rightarrow> AsyncProducer" where
  "AsyncProducer_init client topic freq =
     \<lparr>frequency = freq, producer = client, topic_name = topic, messages = []\<rparr>"

text \<open>
  \<open>enqueue_message\<close>: a message that \<open>json.dumps\<close> refuses with \<open>TypeError\<close>, the only
  exception that \<open>json_dumps\<close> raises, is logged and dropped; any other message is
  appended to \<open>_messages\<close>. The function returns in both cases.
\<close>

definition enqueue_message :: "pyval \<Rightarrow> AsyncProducer \<Rightarrow> AsyncProducer" where
  "enqueue_message msg self =
     (case json_dumps msg of
        Inl e \<Rightarrow> self
      | Inr m \<Rightarrow> self\<lparr>messages := messages self @ [m]\<rparr>)"

text \<open>
  \<open>listen\<close> is a coroutine on a cooperative scheduler: the other tasks run only while it is
  suspended in \<open>await asyncio.sleep\<close>. The state of the running coroutine is the
  publisher object \<open>this\<close> together with the scheduler's side: \<open>others\<close> holds, for each
  coming suspension, the serialized events that the other tasks enqueue during it (none
  once the list is used up), and \<open>slept\<close> logs the duration of every sleep.
\<close>

record task =
  this :: AsyncProducer
  others :: "encoded list list"
  slept :: "nat list"

definition asyncio_sleep :: "nat \<Rightarrow> task \<Rightarrow> task" where
  "asyncio_sleep d t =
     t\<lparr>this := (this t)\<lparr>messages := messages (this t) @ (case others t of [] \<Rightarrow> [] | b # bs \<Rightarrow> b)\<rparr>,
       others := tl (others t),
       slept := slept t @ [d]\<rparr>"

text \<open>
  The body of \<open>for msg in self._messages\<close> for one \<open>msg\<close>, entered with
  \<open>produce_attempts\<close> (0 in the source). The \<open>break\<close> is the last statement of the
  \<open>while\<close> body, after the \<open>try\<close> statement and outside it, so it runs on both paths:
  after an accepted \<open>produce\<close>, and after the handler of \<open>BufferError\<close> has counted the
  attempt, polled and slept. The body therefore runs at most once and the function has no
  recursive call. Any other exception leaves the coroutine.
\<close>

definition produce_with_backoff :: "encoded \<Rightarrow> nat \<Rightarrow> task \<Rightarrow> exn option \<times> task" where
  "produce_with_backoff msg produce_attempts t =
     (if produce_attempts < 10 then
        (let (r, k) = produce (topic_name (this t)) msg (producer (this t));
             t1 = t\<lparr>this := (this t)\<lparr>producer := k\<rparr>\<rparr>
         in if r = None then (None, t1)
            else if r = Some BufferError then
              (None, asyncio_sleep 5 (t1\<lparr>this := (this t1)\<lparr>producer := poll 1 k\<rparr>\<rparr>))
            else (r, t1))
      else (None, t))"

text \<open>
  \<open>for msg in self._messages\<close>: Python's list iterator keeps an index into the list
  object itself and stops when the index reaches the list's current length, so elements
  appended while the loop is suspended are iterated too. \<open>publish_from i\<close> is the loop
  with the iterator at index \<open>i\<close>.
\<close>

definition backlog :: "task \<Rightarrow> nat" where
  "backlog t = length (messages (this t)) + length (concat (others t))"

function publish_from :: "nat \<Rightarrow> task \<Rightarrow> exn option \<times> task" where
  "publish_from i t =
     (if i < length (messages (this t)) then
        (case produce_with_backoff (messages (this t) ! i) 0 t of
           (Some e, t') \<Rightarrow> (Some e, t')
         | (None, t') \<Rightarrow> publish_from (Suc i) t')
      else (None, t))"
  by pat_completeness auto
termination
proof (relation "measure (\<lambda>(i, t). backlog t - i)", goal_cases)
  case 1
  show ?case by simp
next
  case (2 i t x t')
  have sleep: "\<And>d u. backlog (asyncio_sleep d u) = backlog u"
  proof -
    fix d u
    show "backlog (asyncio_sleep d u) = backlog u"
      by (cases "others u") (simp_all add: backlog_def asyncio_sleep_def)
  qed
  have upd: "\<And>k. backlog (t\<lparr>this := (this t)\<lparr>producer := k\<rparr>\<rparr>) = backlog t"
    by (simp add: backlog_def)
  have step: "backlog (snd (produce_with_backoff (messages (this t) ! i) 0 t)) = backlog t"
    by (simp add: produce_with_backoff_def Let_def sleep upd split: prod.splits)
  from 2(2) have "t' = snd (produce_with_backoff (messages (this t) ! i) 0 t)"
    by (metis snd_conv)
  with step have "backlog t' = backlog t"
    by simp
  moreover have "i < backlog t"
    using 2(1) by (simp add: backlog_def)
  ultimately show ?case by simp
qed

declare publish_from.simps [simp del]

text \<open>
  One flush: the \<open>if queue_size:\<close> block of \<open>listen\<close>. \<open>elapsed\<close> is the difference of
  the two readings of \<open>time.monotonic()\<close>, in clock ticks; the division that computes the
  logged rate raises \<open>ZeroDivisionError\<close> when it is zero, before the queue is cleared.
\<close>

definition flush :: "nat \<Rightarrow> task \<Rightarrow> exn option \<times> task" where
  "flush elapsed t =
     (let queue_size = length (messages (this t)) in
      if queue_size \<noteq> 0 then
        (case publish_from 0 t of
           (Some e, t') \<Rightarrow> (Some e, t')
         | (None, t') \<Rightarrow>
             if elapsed = 0 then (Some ZeroDivisionError, t')
             else (None, t'\<lparr>this := (this t')\<lparr>messages := []\<rparr>\<rparr>))
      else (None, t))"

text \<open>One iteration of \<open>while True\<close> in \<open>listen\<close>: a flush, then the interval sleep.\<close>

definition listen_iteration :: "nat \<Rightarrow> task \<Rightarrow> exn option \<times> task" where
  "listen_iteration elapsed t =
     (case flush elapsed t of
        (Some e, t') \<Rightarrow> (Some e, t')
      | (None, t') \<Rightarrow> (None, asyncio_sleep (frequency (this t')) t'))"

section \<open>Inbound messages: \<open>parse_message\<close> in \<open>worker/message.py\<close>\<close>

text \<open>
  \<open>str(b, 'utf-8')\<close> decodes strictly: it raises \<open>UnicodeDecodeError\<close> (here \<open>None\<close>)
  on a byte that cannot start a sequence, on a missing or wrong continuation byte, on an
  overlong form, on a surrogate and beyond U+10FFFF. The result is the list of code
  points.
\<close>

definition continuation :: "nat \<Rightarrow> bool" where
  "continuation b = (128 \<le> b \<and> b \<le> 191)"

fun utf8 :: "nat list \<Rightarrow> nat list option" where
  "utf8 [] = Some []"
| "utf8 (b0 # bs) =
     (if b0 < 128 then map_option ((#) b0) (utf8 bs)
      else if 194 \<le> b0 \<and> b0 \<le> 223 then
        (case bs of
           b1 # r \<Rightarrow>
             if continuation b1
             then map_option ((#) ((b0 - 192) * 64 + (b1 - 128))) (utf8 r)
             else None
         | _ \<Rightarrow> None)
      else if 224 \<le> b0 \<and> b0 \<le> 239 then
        (case bs of
           b1 # b2 # r \<Rightarrow>
             if (if b0 = 224 then 160 \<le> b1 \<and> b1 \<le> 191
                 else if b0 = 237 then 128 \<le> b1 \<and> b1 \<le> 159
                 else continuation b1) \<and> continuation b2
             then map_option ((#) ((b0 - 224) * 4096 + (b1 - 128) * 64 + (b2 - 128))) (utf8 r)
             else None
         | _ \<Rightarrow> None)
      else if 240 \<le> b0 \<and> b0 \<le> 244 then
        (case bs of
           b1 # b2 # b3 # r \<Rightarrow>
             if (if b0 = 240 then 144 \<le> b1 \<and> b1 \<le> 191
                 else if b0 = 244 then 128 \<le> b1 \<and> b1 \<le> 143
                 else continuation b1) \<and> continuation b2 \<and> continuation b3
             then map_option
                    ((#) ((b0 - 240) * 262144 + (b1 - 128) * 4096 + (b2 - 128) * 64 + (b3 - 128)))
                    (utf8 r)
             else None
         | _ \<Rightarrow> None)
      else None)"

definition str_utf8 :: "8 word list \<Rightarrow> exn + nat list" where
  "str_utf8 b = (case utf8 (map unat b) of None \<Rightarrow> Inl UnicodeDecodeError | Some text \<Rightarrow> Inr text)"

text \<open>
  An inbound broker message: \<open>msg.value()\<close> is the payload, or \<open>None\<close> when the message
  has none, in which case \<open>str(None, 'utf-8')\<close> raises \<open>TypeError\<close>.
\<close>

record message =
  msg_value :: "8 word list option"

text \<open>
  \<open>parse_message\<close>. \<open>json.loads\<close> is the library's parser, a parameter: it returns the
  decoded value or raises. Only \<open>json.JSONDecodeError\<close> is caught; the function then
  returns \<open>None\<close>.
\<close>

definition parse_message :: "(nat list \<Rightarrow> exn + pyval) \<Rightarrow> message \<Rightarrow> exn + pyval" where
  "parse_message json_loads msg =
     (case msg_value msg of
        None \<Rightarrow> Inl TypeError
      | Some b \<Rightarrow>
          (case str_utf8 b of
             Inl e \<Rightarrow> Inl e
           | Inr text \<Rightarrow>
               (case json_loads text of
                  Inl e \<Rightarrow> if e = JSONDecodeError then Inr PyNone else Inl e
                | Inr decoded \<Rightarrow> Inr decoded)))"

section \<open>The metadata codec\<close>

text \<open>
  A decoded PIL image, as far as the worker reads it: \<open>img.size\<close>, which PIL gives as the
  pair (width, height); \<open>img.mode\<close>; whether \<open>'exif'\<close> is a key of \<open>img.info\<close>; and the
  items of \<open>img.getexif()\<close>. \<open>Image_width\<close> and \<open>Image_height\<close> are PIL's properties
  \<open>Image.width\<close> and \<open>Image.height\<close>.
\<close>

record image =
  img_size :: "int \<times> int"
  img_mode :: string
  info_exif :: bool
  getexif_items :: "(int \<times> pyval) list"

definition Image_width :: "image \<Rightarrow> int" where
  "Image_width img = fst (img_size img)"

definition Image_height :: "image \<Rightarrow> int" where
  "Image_height img = snd (img_size img)"

text \<open>Python's \<open>hex\<close>: lowercase digits after \<open>0x\<close>, a leading minus sign for a negative number.\<close>

fun hex_digits :: "nat \<Rightarrow> string" where
  "hex_digits n =
     (if n < 16 then [''0123456789abcdef'' ! n]
      else hex_digits (n div 16) @ [''0123456789abcdef'' ! (n mod 16)])"

declare hex_digits.simps [simp del]

definition hex :: "int \<Rightarrow> string" where
  "hex k = (if k < 0 then ''-0x'' @ hex_digits (nat (- k)) else ''0x'' @ hex_digits (nat k))"

subsection \<open>The functions of \<open>worker/message.py\<close>\<close>

text \<open>
  \<open>wand\<close> is the probe \<open>wand.image.Image(file=buffer).compression_quality\<close>, a parameter:
  it returns the quality or raises. \<open>WandException\<close> is the base class of the errors that
  the wand binding reports, and the only exception that \<open>notify_quality\<close> catches; any
  other one leaves \<open>notify_quality\<close> before it enqueues anything.
\<close>

definition message_notify_quality ::
  "(8 word list \<Rightarrow> exn + int) \<Rightarrow> image \<Rightarrow> 8 word list \<Rightarrow> string \<Rightarrow> AsyncProducer
     \<Rightarrow> exn option \<times> AsyncProducer" where
  "message_notify_quality wand img buffer identifier metadata_producer =
     (let (height, width) = img_size img;
          filesize = int (length buffer);
          probe = (case wand buffer of
                     Inl e \<Rightarrow> if e = WandException then Inr PyNone else Inl e
                   | Inr q \<Rightarrow> Inr (PyInt q))
      in case probe of
           Inl e \<Rightarrow> (Some e, metadata_producer)
         | Inr compression_quality \<Rightarrow>
             (None, enqueue_message
                (PyDict [(''height'', PyInt height),
                         (''width'', PyInt width),
                         (''identifier'', PyStr identifier),
                         (''filesize'', PyInt filesize),
                         (''compression_quality'', compression_quality)])
                metadata_producer))"

definition message_notify_exif :: "image \<Rightarrow> string \<Rightarrow> AsyncProducer \<Rightarrow> AsyncProducer" where
  "message_notify_exif img identifier metadata_producer =
     (if info_exif img then
        (let exif = map (\<lambda>(k, v). (hex k, v)) (getexif_items img)
         in if exif \<noteq> [] then
              enqueue_message
                (PyDict [(''identifier'', PyStr identifier), (''exif'', PyDict exif)])
                metadata_producer
            else metadata_producer)
      else metadata_producer)"

definition notify_retry ::
  "string \<Rightarrow> string \<Rightarrow> string \<Rightarrow> int \<Rightarrow> AsyncProducer \<Rightarrow> AsyncProducer" where
  "notify_retry identifier source url attempts retry_producer =
     enqueue_message
       (PyDict [(''url'', PyStr url),
                (''uuid'', PyStr identifier),
                (''source'', PyStr source),
                (''attempts'', PyInt attempts)])
       retry_producer"

text \<open>\<open>utcnow\<close> is the value of \<open>dt.datetime.utcnow().isoformat()\<close> at the call.\<close>

definition notify_404 :: "string \<Rightarrow> string \<Rightarrow> AsyncProducer \<Rightarrow> AsyncProducer" where
  "notify_404 utcnow identifier link_rot_producer =
     enqueue_message
       (PyDict [(''identifier'', PyStr identifier), (''timestamp'', PyStr utcnow)])
       link_rot_producer"

subsection \<open>The functions of \<open>worker/image.py\<close>\<close>

text \<open>
  \<open>worker/image.py\<close> has functions of the same two names, and they are the ones that
  \<open>process_image\<close> calls. They hand the event to the methods
  \<open>notify_image_quality_update\<close> and \<open>notify_exif_update\<close> of the metadata producer.
  The metadata producer is an \<open>AsyncProducer\<close>, the only producer class of the worker and
  the one its tests pass as \<open>metadata_producer\<close>. The names that an \<open>AsyncProducer\<close>
  has are the four attributes set by \<open>__init__\<close> and the two methods of the class;
  looking up any other name raises \<open>AttributeError\<close>.
\<close>

definition AsyncProducer_names :: "string list" where
  "AsyncProducer_names =
     [''frequency'', ''producer'', ''topic_name'', ''_messages'', ''enqueue_message'', ''listen'']"

definition getattr :: "AsyncProducer \<Rightarrow> string \<Rightarrow> exn option" where
  "getattr obj name = (if name \<in> set AsyncProducer_names then None else Some AttributeError)"

text \<open>
  \<open>notify_quality\<close> of \<open>worker/image.py\<close>: the statements before the call are those of
  \<open>worker/message.py\<close>; the call itself ends in the exception of the attribute lookup,
  and nothing is enqueued.
\<close>

definition image_notify_quality ::
  "(8 word list \<Rightarrow> exn + int) \<Rightarrow> image \<Rightarrow> 8 word list \<Rightarrow> string \<Rightarrow> AsyncProducer
     \<Rightarrow> exn option \<times> AsyncProducer" where
  "image_notify_quality wand img buffer identifier metadata_producer =
     (let (height, width) = img_size img;
          filesize = int (length buffer);
          probe = (case wand buffer of
                     Inl e \<Rightarrow> if e = WandException then Inr PyNone else Inl e
                   | Inr q \<Rightarrow> Inr (PyInt q))
      in case probe of
           Inl e \<Rightarrow> (Some e, metadata_producer)
         | Inr compression_quality \<Rightarrow>
             (getattr metadata_producer ''notify_image_quality_update'', metadata_producer))"

definition image_notify_exif ::
  "image \<Rightarrow> string \<Rightarrow> AsyncProducer \<Rightarrow> exn option \<times> AsyncProducer" where
  "image_notify_exif img identifier metadata_producer =
     (if info_exif img then
        (let exif = map (\<lambda>(k, v). (hex k, v)) (getexif_items img)
         in if exif \<noteq> [] then (getattr metadata_producer ''notify_exif_update'', metadata_producer)
            else (None, metadata_producer))
      else (None, metadata_producer))"

section \<open>The pipeline orchestrator: \<open>process_image\<close> in \<open>worker/image.py\<close>\<close>

text \<open>
  The libraries are parameters: \<open>Image_open\<close> is \<open>PIL.Image.open\<close> on the fetched bytes,
  \<open>compression_quality\<close> the wand probe, \<open>Image_thumbnail\<close> PIL's in-place
  \<open>Image.thumbnail\<close> for a given size (with \<open>resample=Image.NEAREST\<close>); each returns or
  raises. \<open>TARGET_RESOLUTION\<close> is the constant of \<open>worker/settings.py\<close>, which is not
  among the sources.
\<close>

record library =
  Image_open :: "8 word list \<Rightarrow> exn + image"
  compression_quality :: "8 word list \<Rightarrow> exn + int"
  Image_thumbnail :: "int \<times> int \<Rightarrow> image \<Rightarrow> exn + image"
  TARGET_RESOLUTION :: "int \<times> int"

text \<open>The file that \<open>img.save(output, format="JPEG", quality=30)\<close> writes.\<close>

record encoded_image =
  out_format :: string
  out_quality :: nat
  out_mode :: string
  out_size :: "int \<times> int"

definition convert :: "string \<Rightarrow> image \<Rightarrow> image" where
  "convert m img = img\<lparr>img_mode := m\<rparr>"

definition save :: "image \<Rightarrow> string \<Rightarrow> nat \<Rightarrow> encoded_image" where
  "save img fmt quality =
     \<lparr>out_format = fmt, out_quality = quality, out_mode = img_mode img, out_size = img_size img\<rparr>"

definition thumbnail_image :: "library \<Rightarrow> image \<Rightarrow> exn + encoded_image" where
  "thumbnail_image lib img =
     (case Image_thumbnail lib (TARGET_RESOLUTION lib) img of
        Inl e \<Rightarrow> Inl e
      | Inr img1 \<Rightarrow>
          (let img2 = (if img_mode img1 \<noteq> ''RGB'' then convert ''RGB'' img1 else img1)
           in Inr (save img2 ''JPEG'' 30)))"

text \<open>
  The response of \<open>session.get\<close>: its status, and what \<open>await img_resp.read()\<close> gives.
  \<open>session.get\<close> itself returns a response, or \<open>None\<close> when the rate limiter grants no
  token, or raises.
\<close>

record response =
  status :: int
  read :: "exn + 8 word list"

text \<open>
  What a call of \<open>process_image\<close> can change: the calls received by the stats collaborator,
  the metadata producer (\<open>None\<close> when \<open>metadata_producer\<close> is not given), the functions
  submitted with \<open>run_in_executor\<close>, and what the persister has stored.
\<close>

datatype code = Code_str string | Code_int int

datatype stat_call = Record_error string code | Record_success string

datatype job = Run_Image_open | Run_thumbnail_image | Run_persister

record world =
  stats :: "stat_call list"
  sink :: "AsyncProducer option"
  executor :: "job list"
  persisted :: "(string \<times> encoded_image) list"

definition record_error :: "string \<Rightarrow> code \<Rightarrow> world \<Rightarrow> world" where
  "record_error source c w = w\<lparr>stats := stats w @ [Record_error source c]\<rparr>"

definition record_success :: "string \<Rightarrow> world \<Rightarrow> world" where
  "record_success source w = w\<lparr>stats := stats w @ [Record_success source]\<rparr>"

text \<open>
  The body of the \<open>try\<close> statement: \<open>Image.open\<close> on the executor, then, when a metadata
  producer is given, \<open>notify_quality\<close> and \<open>notify_exif\<close>. The result is the decoded image
  or the exception raised, with the state as the statements before the raise left it.
\<close>

definition open_and_notify ::
  "library \<Rightarrow> 8 word list \<Rightarrow> string \<Rightarrow> world \<Rightarrow> (exn + image) \<times> world" where
  "open_and_notify lib buffer identifier w =
     (let w1 = w\<lparr>executor := executor w @ [Run_Image_open]\<rparr>
      in case Image_open lib buffer of
           Inl e \<Rightarrow> (Inl e, w1)
         | Inr img \<Rightarrow>
             (case sink w1 of
                None \<Rightarrow> (Inr img, w1)
              | Some metadata_producer \<Rightarrow>
                  (case image_notify_quality (compression_quality lib) img buffer identifier
                          metadata_producer of
                     (Some e, p) \<Rightarrow> (Inl e, w1\<lparr>sink := Some p\<rparr>)
                   | (None, p) \<Rightarrow>
                       (case image_notify_exif img identifier p of
                          (Some e, p') \<Rightarrow> (Inl e, w1\<lparr>sink := Some p'\<rparr>)
                        | (None, p') \<Rightarrow> (Inr img, w1\<lparr>sink := Some p'\<rparr>)))))"

text \<open>The statements after the \<open>try\<close> statement: thumbnail, persist, record the success.\<close>

definition thumbnail_and_persist ::
  "library \<Rightarrow> (encoded_image \<Rightarrow> string \<Rightarrow> exn option) \<Rightarrow> image \<Rightarrow> string \<Rightarrow> string \<Rightarrow> world
     \<Rightarrow> exn option \<times> world" where
  "thumbnail_and_persist lib persister img identifier source w =
     (let w1 = w\<lparr>executor := executor w @ [Run_thumbnail_image]\<rparr>
      in case thumbnail_image lib img of
           Inl e \<Rightarrow> (Some e, w1)
         | Inr thumb \<Rightarrow>
             (let w2 = w1\<lparr>executor := executor w1 @ [Run_persister]\<rparr>
              in case persister thumb identifier of
                   Some e \<Rightarrow> (Some e, w2)
                 | None \<Rightarrow>
                     (None, record_success source
                              (w2\<lparr>persisted := persisted w2 @ [(identifier, thumb)]\<rparr>))))"

text \<open>
  \<open>process_image\<close>. The result is \<open>None\<close> when the coroutine returns and \<open>Some e\<close> when
  it raises \<open>e\<close> to its caller. The semaphore is acquired on entry and released on every
  exit; it changes nothing else and is left out.
\<close>

definition process_image ::
  "library \<Rightarrow> (encoded_image \<Rightarrow> string \<Rightarrow> exn option) \<Rightarrow> (string \<Rightarrow> string \<Rightarrow> exn + response option)
     \<Rightarrow> string \<Rightarrow> string \<Rightarrow> string \<Rightarrow> world \<Rightarrow> exn option \<times> world" where
  "process_image lib persister session_get url identifier source w =
     (case session_get url source of
        Inl e \<Rightarrow>
          if e = ServerDisconnectedError
          then (None, record_error source (Code_str ''ServerDisconnected'') w)
          else (Some e, w)
      | Inr None \<Rightarrow> (None, record_error source (Code_str ''NoRateToken'') w)
      | Inr (Some img_resp) \<Rightarrow>
          if status img_resp \<ge> 400
          then (None, record_error source (Code_int (status img_resp)) w)
          else
            (case read img_resp of
               Inl e \<Rightarrow> (Some e, w)
             | Inr buffer \<Rightarrow>
                 (case open_and_notify lib buffer identifier w of
                    (Inl e, w1) \<Rightarrow>
                      if e = UnidentifiedImageError
                      then (None, record_error source (Code_str ''UnidentifiedImageError'') w1)
                      else (Some e, w1)
                  | (Inr img, w1) \<Rightarrow>
                      thumbnail_and_persist lib persister img identifier source w1)))"

section \<open>Reading events and example inputs\<close>

text \<open>The field names of a serialized event: the keys of the dictionary it encodes.\<close>

definition field_names :: "encoded \<Rightarrow> string list" where
  "field_names m = (case m of Json_utf8 (PyDict kvs) \<Rightarrow> map fst kvs | _ \<Rightarrow> [])"

text \<open>
  The inputs of the examples below. \<open>ev i\<close> is a serialized event for identifier \<open>i\<close>.
  \<open>idle\<close> is a Kafka client that accepts every message; \<open>busy n\<close> one that raises
  \<open>BufferError\<close> on its first \<open>n\<close> calls of \<open>produce\<close> and accepts afterwards.
  \<open>listening client queue arrivals\<close> is a publisher on topic \<open>meta\<close> about to flush
  \<open>queue\<close>, with the events that other tasks enqueue during its coming sleeps.
\<close>

definition ev :: "string \<Rightarrow> encoded" where
  "ev i = Json_utf8 (PyDict [(''identifier'', PyStr i)])"

definition idle :: kafka where
  "idle = \<lparr>outcomes = [], calls = [], delivered = [], polls = []\<rparr>"

definition busy :: "nat \<Rightarrow> kafka" where
  "busy n = \<lparr>outcomes = replicate n (Some BufferError), calls = [], delivered = [], polls = []\<rparr>"

definition listening :: "kafka \<Rightarrow> encoded list \<Rightarrow> encoded list list \<Rightarrow> task" where
  "listening client queue arrivals =
     \<lparr>this = \<lparr>frequency = 60, producer = client, topic_name = ''meta'', messages = queue\<rparr>,
      others = arrivals, slept = []\<rparr>"

text \<open>
  A decoded image 640 pixels wide and 480 high, in mode \<open>RGB\<close>, without EXIF data.
  \<open>fit\<close> is a stand-in for \<open>Image.thumbnail\<close> in the examples: it leaves an image
  within the envelope as it is and cuts a larger one down to the envelope. The examples
  apply it to images within the envelope and to one of 1280 by 960 pixels for the
  envelope 640 by 480, on which it gives the size that PIL gives.
  \<open>pillow decode probe\<close> is a library with this thumbnailer and the envelope 640 by 480.
  \<open>fetched code payload\<close> is a session whose \<open>get\<close> returns a response with this status
  and body, and \<open>fresh s\<close> the state before the first task, with metadata producer \<open>s\<close>.
\<close>

definition jpeg_640x480 :: image where
  "jpeg_640x480 =
     \<lparr>img_size = (640, 480), img_mode = ''RGB'', info_exif = False, getexif_items = []\<rparr>"

definition fit :: "int \<times> int \<Rightarrow> image \<Rightarrow> exn + image" where
  "fit sz img =
     (if fst (img_size img) \<le> fst sz \<and> snd (img_size img) \<le> snd sz then Inr img
      else Inr (img\<lparr>img_size := (min (fst (img_size img)) (fst sz),
                                  min (snd (img_size img)) (snd sz))\<rparr>))"

definition pillow :: "(8 word list \<Rightarrow> exn + image) \<Rightarrow> (8 word list \<Rightarrow> exn + int) \<Rightarrow> library" where
  "pillow decode probe =
     \<lparr>Image_open = decode, compression_quality = probe,
      Image_thumbnail = fit, TARGET_RESOLUTION = (640, 480)\<rparr>"

definition fetched :: "int \<Rightarrow> 8 word list \<Rightarrow> string \<Rightarrow> string \<Rightarrow> exn + response option" where
  "fetched code payload url source = Inr (Some \<lparr>status = code, read = Inr payload\<rparr>)"

definition fresh :: "AsyncProducer option \<Rightarrow> world" where
  "fresh s = \<lparr>stats = [], sink = s, executor = [], persisted = []\<rparr>"

text \<open>
  A stand-in for \<open>json.loads\<close> in the examples. It is applied to two texts only, on
  which it does what \<open>json.loads\<close> does: the text \<open>1\<close> (code point 49) decodes to the
  integer 1, and the text of a lone opening brace (code point 123) is no JSON document.
\<close>

definition loads_example :: "nat list \<Rightarrow> exn + pyval" where
  "loads_example text =
     (if text = [49] then Inr (PyInt 1) else Inl JSONDecodeError)"

section \<open>The flush loop\<close>

lemma produce_with_backoff_step:
  assumes "produce_with_backoff msg 0 t = (None, t1)"
  shows "\<exists>j. messages (this t1) = messages (this t) @ concat (take j (others t))
           \<and> others t1 = drop j (others t)
           \<and> slept t1 = slept t @ replicate j 5
           \<and> calls (producer (this t1)) = calls (producer (this t)) @ [(topic_name (this t), msg)]
           \<and> topic_name (this t1) = topic_name (this t)"
proof (cases "fst (produce (topic_name (this t)) msg (producer (this t))) = None")
  case True
  with assms have "t1 = t\<lparr>this := (this t)\<lparr>producer := snd (produce (topic_name (this t)) msg (producer (this t)))\<rparr>\<rparr>"
    by (simp add: produce_with_backoff_def Let_def split: prod.splits)
  then have "messages (this t1) = messages (this t) @ concat (take 0 (others t))
           \<and> others t1 = drop 0 (others t)
           \<and> slept t1 = slept t @ replicate 0 5
           \<and> calls (producer (this t1)) = calls (producer (this t)) @ [(topic_name (this t), msg)]
           \<and> topic_name (this t1) = topic_name (this t)"
    by (simp add: produce_def split: list.splits)
  then show ?thesis by blast
next
  case False
  with assms have t1: "t1 = asyncio_sleep 5 (t\<lparr>this := (this t)\<lparr>producer := poll 1 (snd (produce (topic_name (this t)) msg (producer (this t))))\<rparr>\<rparr>)"
    by (simp add: produce_with_backoff_def Let_def split: prod.splits if_splits)
  have "messages (this t1) = messages (this t) @ concat (take 1 (others t))
           \<and> others t1 = drop 1 (others t)
           \<and> slept t1 = slept t @ replicate 1 5
           \<and> calls (producer (this t1)) = calls (producer (this t)) @ [(topic_name (this t), msg)]
           \<and> topic_name (this t1) = topic_name (this t)"
    unfolding t1 by (simp add: asyncio_sleep_def poll_def produce_def drop_Suc split: list.splits)
  then show ?thesis by blast
qed

lemma publish_from_trace:
  assumes "publish_from i t = (None, t')" and "i \<le> length (messages (this t))"
  shows "\<exists>k. messages (this t') = messages (this t) @ concat (take k (others t))
           \<and> others t' = drop k (others t)
           \<and> slept t' = slept t @ replicate k 5
           \<and> calls (producer (this t')) =
               calls (producer (this t)) @ map (Pair (topic_name (this t))) (drop i (messages (this t')))
           \<and> topic_name (this t') = topic_name (this t)"
  using assms
proof (induction i t rule: publish_from.induct)
  case (1 i t)
  show ?case
  proof (cases "i < length (messages (this t))")
    case False
    with "1.prems" have "t' = t" and "i = length (messages (this t))"
      by (simp_all add: publish_from.simps [of i t])
    then have "messages (this t') = messages (this t) @ concat (take 0 (others t))
           \<and> others t' = drop 0 (others t)
           \<and> slept t' = slept t @ replicate 0 5
           \<and> calls (producer (this t')) =
               calls (producer (this t)) @ map (Pair (topic_name (this t))) (drop i (messages (this t')))
           \<and> topic_name (this t') = topic_name (this t)"
      by simp
    then show ?thesis by blast
  next
    case True
    obtain r t1 where step: "produce_with_backoff (messages (this t) ! i) 0 t = (r, t1)"
      by (cases "produce_with_backoff (messages (this t) ! i) 0 t")
    with True "1.prems"(1) have r: "r = None" and rest: "publish_from (Suc i) t1 = (None, t')"
      by (auto simp add: publish_from.simps [of i t] split: option.splits)
    from produce_with_backoff_step [OF step [unfolded r]]
    obtain j where j: "messages (this t1) = messages (this t) @ concat (take j (others t))"
      "others t1 = drop j (others t)" "slept t1 = slept t @ replicate j 5"
      "calls (producer (this t1)) = calls (producer (this t)) @ [(topic_name (this t), messages (this t) ! i)]"
      "topic_name (this t1) = topic_name (this t)"
      by blast
    have le: "Suc i \<le> length (messages (this t1))"
      using True j(1) by simp
    from "1.IH" [OF True step [symmetric] r rest le]
    obtain k where k: "messages (this t') = messages (this t1) @ concat (take k (others t1))"
      "others t' = drop k (others t1)" "slept t' = slept t1 @ replicate k 5"
      "calls (producer (this t')) =
         calls (producer (this t1)) @ map (Pair (topic_name (this t1))) (drop (Suc i) (messages (this t')))"
      "topic_name (this t') = topic_name (this t1)"
      by blast
    have m: "messages (this t') = messages (this t) @ concat (take (j + k) (others t))"
      using j(1,2) k(1) by (simp add: take_add)
    have nth: "messages (this t') ! i = messages (this t) ! i"
      using True m by (simp add: nth_append)
    have len: "i < length (messages (this t'))"
      using True m by simp
    have "drop i (messages (this t')) = messages (this t) ! i # drop (Suc i) (messages (this t'))"
      using Cons_nth_drop_Suc [OF len] nth by simp
    then have c: "calls (producer (this t')) =
               calls (producer (this t)) @ map (Pair (topic_name (this t))) (drop i (messages (this t')))"
      using k(4) j(4,5) by simp
    have "others t' = drop (j + k) (others t)"
      using j(2) k(2) by (simp add: add.commute)
    moreover have "slept t' = slept t @ replicate (j + k) 5"
      using j(3) k(3) by (simp add: replicate_add)
    moreover have "topic_name (this t') = topic_name (this t)"
      using j(5) k(5) by simp
    ultimately show ?thesis using m c by blast
  qed
qed

lemmas flush_unfold =
  flush_def publish_from.simps produce_with_backoff_def produce_def poll_def asyncio_sleep_def
  Let_def listening_def idle_def busy_def ev_def

text \<open>
  C1, as stated, fails. The queue holds one event \<open>a\<close>; the client reports buffer
  exhaustion on the first call, and another task enqueues \<open>b\<close> during the back-off sleep.
  After the first event has been handled the queue holds both events, so it was not
  cleared when the flush began; the same flush then hands \<open>b\<close> to the client, which
  accepts it; and the flush ends with an empty queue, so \<open>b\<close> is in no later batch.
\<close>

theorem flush_snapshot_counterexample:
  "messages (this (snd (produce_with_backoff (ev ''a'') 0
       (listening (busy 1) [ev ''a''] [[ev ''b'']])))) = [ev ''a'', ev ''b'']
   \<and> fst (flush 1 (listening (busy 1) [ev ''a''] [[ev ''b'']])) = None
   \<and> delivered (producer (this (snd (flush 1 (listening (busy 1) [ev ''a''] [[ev ''b'']])))))
       = [(''meta'', ev ''b'')]
   \<and> messages (this (snd (flush 1 (listening (busy 1) [ev ''a''] [[ev ''b'']])))) = []
   \<and> others (snd (flush 1 (listening (busy 1) [ev ''a''] [[ev ''b'']]))) = []"
  by (simp add: flush_unfold)

text \<open>
  C1, amended: a flush that finishes without an exception has iterated the live queue.
  With \<open>k\<close> back-off sleeps during the flush, the events handed to the client by this
  flush are, in this order, the events queued when it began and then the events that the
  other tasks enqueued during those \<open>k\<close> sleeps; none of them is skipped, and the queue is
  empty when the flush ends. The events of later sleeps are still to come.
\<close>

theorem flush_live_queue:
  assumes "flush elapsed t = (None, t')"
  shows "\<exists>k. map snd (calls (producer (this t'))) =
               map snd (calls (producer (this t))) @ messages (this t) @ concat (take k (others t))
           \<and> others t' = drop k (others t)
           \<and> slept t' = slept t @ replicate k 5
           \<and> messages (this t') = []"
proof (cases "messages (this t) = []")
  case True
  with assms have "t' = t"
    by (simp add: flush_def)
  with True have "map snd (calls (producer (this t'))) =
               map snd (calls (producer (this t))) @ messages (this t) @ concat (take 0 (others t))
           \<and> others t' = drop 0 (others t)
           \<and> slept t' = slept t @ replicate 0 5
           \<and> messages (this t') = []"
    by simp
  then show ?thesis by blast
next
  case False
  obtain r t1 where p: "publish_from 0 t = (r, t1)"
    by (cases "publish_from 0 t")
  with assms False have r: "r = None" and t': "t' = t1\<lparr>this := (this t1)\<lparr>messages := []\<rparr>\<rparr>"
    by (auto simp add: flush_def Let_def split: option.splits if_splits)
  from publish_from_trace [OF p [unfolded r]]
  obtain k where k: "messages (this t1) = messages (this t) @ concat (take k (others t))"
      "others t1 = drop k (others t)" "slept t1 = slept t @ replicate k 5"
      "calls (producer (this t1)) =
         calls (producer (this t)) @ map (Pair (topic_name (this t))) (drop 0 (messages (this t1)))"
    by auto
  have "map snd (calls (producer (this t'))) =
               map snd (calls (producer (this t))) @ messages (this t) @ concat (take k (others t))"
    using k(1,4) by (simp add: t' comp_def)
  moreover have "others t' = drop k (others t)" "slept t' = slept t @ replicate k 5"
      "messages (this t') = []"
    using k(2,3) by (simp_all add: t')
  ultimately show ?thesis by blast
qed

theorem flush_live_queue_witness:
  "flush 1 (listening (busy 1) [ev ''a''] [[ev ''b''], [ev ''c'']])
     = (None, snd (flush 1 (listening (busy 1) [ev ''a''] [[ev ''b''], [ev ''c'']])))
   \<and> map snd (calls (producer (this (snd (flush 1
         (listening (busy 1) [ev ''a''] [[ev ''b''], [ev ''c'']])))))) = [ev ''a'', ev ''b'']
   \<and> others (snd (flush 1 (listening (busy 1) [ev ''a''] [[ev ''b''], [ev ''c'']]))) = [[ev ''c'']]
   \<and> (\<exists>k. map snd (calls (producer (this (snd (flush 1
               (listening (busy 1) [ev ''a''] [[ev ''b''], [ev ''c'']])))))) =
             map snd (calls (producer (this (listening (busy 1) [ev ''a''] [[ev ''b''], [ev ''c'']]))))
               @ messages (this (listening (busy 1) [ev ''a''] [[ev ''b''], [ev ''c'']]))
               @ concat (take k (others (listening (busy 1) [ev ''a''] [[ev ''b''], [ev ''c'']])))
          \<and> others (snd (flush 1 (listening (busy 1) [ev ''a''] [[ev ''b''], [ev ''c'']]))) =
               drop k (others (listening (busy 1) [ev ''a''] [[ev ''b''], [ev ''c'']]))
          \<and> slept (snd (flush 1 (listening (busy 1) [ev ''a''] [[ev ''b''], [ev ''c'']]))) =
               slept (listening (busy 1) [ev ''a''] [[ev ''b''], [ev ''c'']]) @ replicate k 5
          \<and> messages (this (snd (flush 1
               (listening (busy 1) [ev ''a''] [[ev ''b''], [ev ''c'']])))) = [])"
proof -
  let ?t = "listening (busy 1) [ev ''a''] [[ev ''b''], [ev ''c'']]"
  have fl: "flush 1 ?t = (None, snd (flush 1 ?t))"
    by (simp add: flush_unfold)
  moreover have "map snd (calls (producer (this (snd (flush 1 ?t))))) = [ev ''a'', ev ''b'']"
    by (simp add: flush_unfold)
  moreover have "others (snd (flush 1 ?t)) = [[ev ''c'']]"
    by (simp add: flush_unfold)
  ultimately show ?thesis
    using flush_live_queue [OF fl] by blast
qed

text \<open>
  Whatever the client does, one event costs exactly one call of \<open>produce\<close>: the
  \<open>while\<close> loop never comes round to a second attempt.
\<close>

lemma produce_with_backoff_one_call:
  "calls (producer (this (snd (produce_with_backoff msg 0 t)))) =
     calls (producer (this t)) @ [(topic_name (this t), msg)]"
  by (simp add: produce_with_backoff_def produce_def poll_def asyncio_sleep_def Let_def
      split: list.splits)

text \<open>
  C2 fails on the code, at two inputs. First: two events are queued and the client reports
  buffer exhaustion once and then accepts. \<open>listen\<close> calls \<open>produce\<close> once for event \<open>a\<close>,
  polls, sleeps five seconds and goes on to \<open>b\<close>: only \<open>b\<close> is delivered. Second: the
  client reports buffer exhaustion ten times over. Event \<open>a\<close> is abandoned after one call
  of \<open>produce\<close> and one sleep, with nine reports still unused.
\<close>

theorem listen_gives_up_after_one_attempt:
  "flush 1 (listening (busy 1) [ev ''a'', ev ''b''] []) =
     (None,
      \<lparr>this = \<lparr>frequency = 60,
               producer = \<lparr>outcomes = [],
                           calls = [(''meta'', ev ''a''), (''meta'', ev ''b'')],
                           delivered = [(''meta'', ev ''b'')],
                           polls = [1]\<rparr>,
               topic_name = ''meta'', messages = []\<rparr>,
       others = [], slept = [5]\<rparr>)
   \<and> flush 1 (listening (busy 10) [ev ''a''] []) =
     (None,
      \<lparr>this = \<lparr>frequency = 60,
               producer = \<lparr>outcomes = replicate 9 (Some BufferError),
                           calls = [(''meta'', ev ''a'')],
                           delivered = [],
                           polls = [1]\<rparr>,
               topic_name = ''meta'', messages = []\<rparr>,
       others = [], slept = [5]\<rparr>)"
  by (simp add: flush_unfold eval_nat_numeral)

section \<open>The orchestrator\<close>

text \<open>
  C3 fails on the code. For a response with status 404, \<open>process_image\<close> records the error
  code 404 and returns: the state is otherwise unchanged, so no event reaches any sink.
  Its signature has no parameter for a not-found sink, and it never calls \<open>notify_404\<close>.
\<close>

theorem process_image_404_emits_nothing:
  "process_image lib persister (\<lambda>u s. Inr (Some \<lparr>status = 404, read = body\<rparr>))
       url identifier source w
     = (None, w\<lparr>stats := stats w @ [Record_error source (Code_int 404)]\<rparr>)"
  by (simp add: process_image_def record_error_def)

lemmas process_image_unfold =
  process_image_def open_and_notify_def thumbnail_and_persist_def thumbnail_image_def
  image_notify_quality_def image_notify_exif_def getattr_def AsyncProducer_names_def
  save_def convert_def record_error_def record_success_def Let_def
  pillow_def fit_def jpeg_640x480_def fetched_def fresh_def

text \<open>
  C4, as stated, fails, for each collaborator. In every one of these six runs
  \<open>process_image\<close> raises to its caller and nothing has been recorded through the stats
  collaborator or a metadata producer. In this order: the persister raises; the fetch
  raises a timeout; reading the body raises; \<open>Image.open\<close> raises an exception other than
  \<open>UnidentifiedImageError\<close>; the thumbnailer raises \<open>OSError\<close> on an image whose data is cut
  off; and a metadata producer is given, so that \<open>notify_quality\<close> calls a method that an
  \<open>AsyncProducer\<close> lacks.
\<close>

theorem process_image_raises_counterexample:
  "process_image (pillow (\<lambda>b. Inr jpeg_640x480) (\<lambda>b. Inr 75))
       (\<lambda>img i. Some (OtherException ''ClientError''))
       (fetched 200 [255, 216]) ''https://example.gov/hello.jpg'' ''id-1'' ''example'' (fresh None)
     = (Some (OtherException ''ClientError''),
        \<lparr>stats = [], sink = None,
         executor = [Run_Image_open, Run_thumbnail_image, Run_persister], persisted = []\<rparr>)
   \<and> process_image (pillow (\<lambda>b. Inr jpeg_640x480) (\<lambda>b. Inr 75)) (\<lambda>img i. None)
       (\<lambda>u s. Inl (OtherException ''TimeoutError''))
       ''https://example.gov/hello.jpg'' ''id-1'' ''example'' (fresh None)
     = (Some (OtherException ''TimeoutError''),
        \<lparr>stats = [], sink = None, executor = [], persisted = []\<rparr>)
   \<and> process_image (pillow (\<lambda>b. Inr jpeg_640x480) (\<lambda>b. Inr 75)) (\<lambda>img i. None)
       (\<lambda>u s. Inr (Some \<lparr>status = 200, read = Inl (OtherException ''ClientPayloadError'')\<rparr>))
       ''https://example.gov/hello.jpg'' ''id-1'' ''example'' (fresh None)
     = (Some (OtherException ''ClientPayloadError''),
        \<lparr>stats = [], sink = None, executor = [], persisted = []\<rparr>)
   \<and> process_image (pillow (\<lambda>b. Inl (OtherException ''DecompressionBombError'')) (\<lambda>b. Inr 75))
       (\<lambda>img i. None)
       (fetched 200 [255, 216]) ''https://example.gov/hello.jpg'' ''id-1'' ''example'' (fresh None)
     = (Some (OtherException ''DecompressionBombError''),
        \<lparr>stats = [], sink = None, executor = [Run_Image_open], persisted = []\<rparr>)
   \<and> process_image
       ((pillow (\<lambda>b. Inr jpeg_640x480) (\<lambda>b. Inr 75))\<lparr>Image_thumbnail := (\<lambda>sz img. Inl OSError)\<rparr>)
       (\<lambda>img i. None)
       (fetched 200 [255, 216]) ''https://example.gov/hello.jpg'' ''id-1'' ''example'' (fresh None)
     = (Some OSError,
        \<lparr>stats = [], sink = None,
         executor = [Run_Image_open, Run_thumbnail_image], persisted = []\<rparr>)
   \<and> process_image (pillow (\<lambda>b. Inr jpeg_640x480) (\<lambda>b. Inr 75)) (\<lambda>img i. None)
       (fetched 200 [255, 216]) ''https://example.gov/hello.jpg'' ''id-1'' ''example''
       (fresh (Some (AsyncProducer_init idle ''meta'' 60)))
     = (Some AttributeError,
        \<lparr>stats = [], sink = Some (AsyncProducer_init idle ''meta'' 60),
         executor = [Run_Image_open], persisted = []\<rparr>)"
  by (simp add: process_image_unfold)

text \<open>
  C4, amended: \<open>process_image\<close> returns without raising, and has then recorded exactly one
  outcome through the stats collaborator, on each of these runs: the fetch raises
  \<open>ServerDisconnectedError\<close>; the fetch returns no response; the response has a status of
  400 or more; \<open>Image.open\<close> raises \<open>UnidentifiedImageError\<close> on the body; or no metadata
  producer is given and \<open>Image.open\<close>, the thumbnailer and the persister return.
\<close>

theorem process_image_handled_outcomes:
  assumes "session_get url source = Inl ServerDisconnectedError
     \<or> session_get url source = Inr None
     \<or> (\<exists>img_resp. session_get url source = Inr (Some img_resp)
           \<and> (status img_resp \<ge> 400
              \<or> (\<exists>buffer. read img_resp = Inr buffer
                    \<and> (Image_open lib buffer = Inl UnidentifiedImageError
                       \<or> (\<exists>img thumb. Image_open lib buffer = Inr img \<and> sink w = None
                             \<and> thumbnail_image lib img = Inr thumb
                             \<and> persister thumb identifier = None)))))"
  shows "fst (process_image lib persister session_get url identifier source w) = None
     \<and> (\<exists>outcome. stats (snd (process_image lib persister session_get url identifier source w))
           = stats w @ [outcome])"
  using assms
  by (auto simp add: process_image_def open_and_notify_def thumbnail_and_persist_def
      record_error_def record_success_def Let_def)

theorem process_image_handled_outcomes_witness:
  "process_image (pillow (\<lambda>b. Inl UnidentifiedImageError) (\<lambda>b. Inr 75)) (\<lambda>img i. None)
       (fetched 200 [0]) ''fake_url'' ''id-1'' ''example'' (fresh None)
     = (None, \<lparr>stats = [Record_error ''example'' (Code_str ''UnidentifiedImageError'')],
               sink = None, executor = [Run_Image_open], persisted = []\<rparr>)
   \<and> process_image (pillow (\<lambda>b. Inr jpeg_640x480) (\<lambda>b. Inr 75)) (\<lambda>img i. None)
       (fetched 200 [255, 216]) ''https://example.gov/hello.jpg'' ''id-1'' ''example'' (fresh None)
     = (None, \<lparr>stats = [Record_success ''example''], sink = None,
               executor = [Run_Image_open, Run_thumbnail_image, Run_persister],
               persisted = [(''id-1'', \<lparr>out_format = ''JPEG'', out_quality = 30,
                                        out_mode = ''RGB'', out_size = (640, 480)\<rparr>)]\<rparr>)
   \<and> (\<exists>outcome. stats (snd (process_image
         (pillow (\<lambda>b. Inl UnidentifiedImageError) (\<lambda>b. Inr 75)) (\<lambda>img i. None)
         (fetched 200 [0]) ''fake_url'' ''id-1'' ''example'' (fresh None)))
       = stats (fresh None) @ [outcome])
   \<and> (\<exists>outcome. stats (snd (process_image
         (pillow (\<lambda>b. Inr jpeg_640x480) (\<lambda>b. Inr 75)) (\<lambda>img i. None)
         (fetched 200 [255, 216]) ''https://example.gov/hello.jpg'' ''id-1'' ''example''
         (fresh None)))
       = stats (fresh None) @ [outcome])"
proof -
  let ?bad = "pillow (\<lambda>b. Inl UnidentifiedImageError) (\<lambda>b. Inr 75)"
  let ?good = "pillow (\<lambda>b. Inr jpeg_640x480) (\<lambda>b. Inr 75)"
  let ?thumb = "\<lparr>out_format = ''JPEG'', out_quality = 30, out_mode = ''RGB'',
                 out_size = (640, 480)\<rparr>"
  have a: "fetched 200 [0] ''fake_url'' ''example'' = Inr (Some \<lparr>status = 200, read = Inr [0]\<rparr>)
      \<and> read \<lparr>status = 200, read = Inr [0 :: 8 word]\<rparr> = Inr [0]
      \<and> Image_open ?bad [0] = Inl UnidentifiedImageError"
    by (simp add: fetched_def pillow_def)
  have b: "fetched 200 [255, 216] ''https://example.gov/hello.jpg'' ''example''
        = Inr (Some \<lparr>status = 200, read = Inr [255, 216]\<rparr>)
      \<and> read \<lparr>status = 200, read = Inr [255, 216 :: 8 word]\<rparr> = Inr [255, 216]
      \<and> Image_open ?good [255, 216] = Inr jpeg_640x480
      \<and> sink (fresh None) = None
      \<and> thumbnail_image ?good jpeg_640x480 = Inr ?thumb
      \<and> (\<lambda>img i. None) ?thumb ''id-1'' = (None :: exn option)"
    by (simp add: fetched_def pillow_def fit_def fresh_def thumbnail_image_def save_def
        jpeg_640x480_def)
  have "\<exists>outcome. stats (snd (process_image ?bad (\<lambda>img i. None)
         (fetched 200 [0]) ''fake_url'' ''id-1'' ''example'' (fresh None)))
       = stats (fresh None) @ [outcome]"
    using a
      process_image_handled_outcomes
        [of "fetched 200 [0]" "''fake_url''" "''example''" ?bad "fresh None" "\<lambda>img i. None" "''id-1''"]
    by blast
  moreover have "\<exists>outcome. stats (snd (process_image ?good (\<lambda>img i. None)
         (fetched 200 [255, 216]) ''https://example.gov/hello.jpg'' ''id-1'' ''example''
         (fresh None)))
       = stats (fresh None) @ [outcome]"
    using b
      process_image_handled_outcomes
        [of "fetched 200 [255, 216]" "''https://example.gov/hello.jpg''" "''example''" ?good
          "fresh None" "\<lambda>img i. None" "''id-1''"]
    by blast
  moreover have "process_image ?bad (\<lambda>img i. None)
       (fetched 200 [0]) ''fake_url'' ''id-1'' ''example'' (fresh None)
     = (None, \<lparr>stats = [Record_error ''example'' (Code_str ''UnidentifiedImageError'')],
               sink = None, executor = [Run_Image_open], persisted = []\<rparr>)"
    by (simp add: process_image_unfold)
  moreover have "process_image ?good (\<lambda>img i. None)
       (fetched 200 [255, 216]) ''https://example.gov/hello.jpg'' ''id-1'' ''example'' (fresh None)
     = (None, \<lparr>stats = [Record_success ''example''], sink = None,
               executor = [Run_Image_open, Run_thumbnail_image, Run_persister],
               persisted = [(''id-1'', ?thumb)]\<rparr>)"
    by (simp add: process_image_unfold)
  ultimately show ?thesis
    by blast
qed

text \<open>
  What the code does for a payload that \<open>Image.open\<close> does not recognise: it records the
  error \<open>UnidentifiedImageError\<close> and returns; the metadata producer is as before, only
  \<open>Image.open\<close> was submitted to the executor, and nothing was persisted.
\<close>

lemma process_image_unidentified_image:
  assumes "session_get url source = Inr (Some img_resp)"
    and "status img_resp < 400"
    and "read img_resp = Inr buffer"
    and "Image_open lib buffer = Inl UnidentifiedImageError"
  shows "process_image lib persister session_get url identifier source w =
           (None, w\<lparr>stats := stats w @ [Record_error source (Code_str ''UnidentifiedImageError'')],
                    executor := executor w @ [Run_Image_open]\<rparr>)"
  using assms
  by (simp add: process_image_def open_and_notify_def record_error_def Let_def)

text \<open>
  C8 fails on the code for a corrupt image that \<open>Image.open\<close> still recognises: a file
  with a sound header whose pixel data is cut off. \<open>Image.open\<close> reads the header only
  and returns; the data is read by \<open>Image.thumbnail\<close>, which raises \<open>OSError\<close>. The call
  of \<open>thumbnail_image\<close> stands after the \<open>try\<close> statement, so, here with no metadata
  producer, \<open>process_image\<close> has submitted the thumbnail, raises \<open>OSError\<close> to its caller
  and has recorded no error.
\<close>

theorem process_image_truncated_image:
  "process_image
       ((pillow (\<lambda>b. Inr (jpeg_640x480\<lparr>img_size := (1280, 960)\<rparr>)) (\<lambda>b. Inr 75))
          \<lparr>Image_thumbnail := (\<lambda>sz img. Inl OSError)\<rparr>)
       (\<lambda>img i. None)
       (fetched 200 [255, 216, 255]) ''fake_url'' ''4bbfe191'' ''example'' (fresh None)
     = (Some OSError,
        \<lparr>stats = [], sink = None,
         executor = [Run_Image_open, Run_thumbnail_image], persisted = []\<rparr>)"
  by (simp add: process_image_unfold)

section \<open>The thumbnail\<close>

text \<open>
  What \<open>thumbnail_image\<close> itself fixes: the output is a JPEG file written at quality 30
  from an image in mode \<open>RGB\<close>, and its dimensions are those that PIL's
  \<open>Image.thumbnail\<close> left for the envelope \<open>TARGET_RESOLUTION\<close>; neither \<open>convert\<close>
  nor \<open>save\<close> changes them.
\<close>

lemma thumbnail_image_encoding:
  assumes "thumbnail_image lib img = Inr out"
  shows "out_format out = ''JPEG'' \<and> out_quality out = 30 \<and> out_mode out = ''RGB''
     \<and> (\<exists>img1. Image_thumbnail lib (TARGET_RESOLUTION lib) img = Inr img1
            \<and> out_size out = img_size img1)"
  using assms
  by (auto simp add: thumbnail_image_def save_def convert_def Let_def split: sum.splits if_splits)

text \<open>
  C7: \<open>Image.thumbnail\<close> is PIL's, and its contract is the first hypothesis: the image it
  leaves is no larger than the size it was given, in either dimension, and an image
  already within that size keeps its dimensions. Then every thumbnail that
  \<open>thumbnail_image\<close> returns is within the envelope \<open>TARGET_RESOLUTION\<close>, has the
  dimensions of the input when the input is within the envelope, and is a JPEG file in
  mode \<open>RGB\<close> at quality 30.
\<close>

theorem thumbnail_image_within_envelope:
  assumes "\<forall>size img img1. Image_thumbnail lib size img = Inr img1 \<longrightarrow>
             fst (img_size img1) \<le> fst size \<and> snd (img_size img1) \<le> snd size
             \<and> (fst (img_size img) \<le> fst size \<and> snd (img_size img) \<le> snd size
                  \<longrightarrow> img_size img1 = img_size img)"
    and "thumbnail_image lib img = Inr out"
  shows "fst (out_size out) \<le> fst (TARGET_RESOLUTION lib)
     \<and> snd (out_size out) \<le> snd (TARGET_RESOLUTION lib)
     \<and> (fst (img_size img) \<le> fst (TARGET_RESOLUTION lib)
          \<and> snd (img_size img) \<le> snd (TARGET_RESOLUTION lib)
          \<longrightarrow> out_size out = img_size img)
     \<and> out_format out = ''JPEG'' \<and> out_mode out = ''RGB'' \<and> out_quality out = 30"
proof -
  from thumbnail_image_encoding [OF assms(2)]
  obtain img1 where enc: "out_format out = ''JPEG''" "out_quality out = 30" "out_mode out = ''RGB''"
    and thumb: "Image_thumbnail lib (TARGET_RESOLUTION lib) img = Inr img1"
    and size: "out_size out = img_size img1"
    by blast
  from assms(1) thumb
  have "fst (img_size img1) \<le> fst (TARGET_RESOLUTION lib)
      \<and> snd (img_size img1) \<le> snd (TARGET_RESOLUTION lib)
      \<and> (fst (img_size img) \<le> fst (TARGET_RESOLUTION lib)
           \<and> snd (img_size img) \<le> snd (TARGET_RESOLUTION lib)
           \<longrightarrow> img_size img1 = img_size img)"
    by blast
  with enc size show ?thesis
    by simp
qed

theorem thumbnail_image_within_envelope_witness:
  "thumbnail_image (pillow (\<lambda>b. Inr jpeg_640x480) (\<lambda>b. Inr 75))
       (jpeg_640x480\<lparr>img_size := (1280, 960)\<rparr>)
     = Inr \<lparr>out_format = ''JPEG'', out_quality = 30, out_mode = ''RGB'', out_size = (640, 480)\<rparr>
   \<and> fst (640, 480) \<le> fst (TARGET_RESOLUTION (pillow (\<lambda>b. Inr jpeg_640x480) (\<lambda>b. Inr 75)))
   \<and> snd (640, 480) \<le> snd (TARGET_RESOLUTION (pillow (\<lambda>b. Inr jpeg_640x480) (\<lambda>b. Inr 75)))
   \<and> thumbnail_image (pillow (\<lambda>b. Inr jpeg_640x480) (\<lambda>b. Inr 75))
       (jpeg_640x480\<lparr>img_size := (320, 240), img_mode := ''P''\<rparr>)
     = Inr \<lparr>out_format = ''JPEG'', out_quality = 30, out_mode = ''RGB'', out_size = (320, 240)\<rparr>
   \<and> fst (img_size (jpeg_640x480\<lparr>img_size := (320, 240), img_mode := ''P''\<rparr>))
       \<le> fst (TARGET_RESOLUTION (pillow (\<lambda>b. Inr jpeg_640x480) (\<lambda>b. Inr 75)))
   \<and> snd (img_size (jpeg_640x480\<lparr>img_size := (320, 240), img_mode := ''P''\<rparr>))
       \<le> snd (TARGET_RESOLUTION (pillow (\<lambda>b. Inr jpeg_640x480) (\<lambda>b. Inr 75)))
   \<and> (320, 240) = img_size (jpeg_640x480\<lparr>img_size := (320, 240), img_mode := ''P''\<rparr>)"
proof -
  let ?lib = "pillow (\<lambda>b. Inr jpeg_640x480) (\<lambda>b. Inr 75)"
  let ?big = "jpeg_640x480\<lparr>img_size := (1280, 960)\<rparr>"
  let ?small = "jpeg_640x480\<lparr>img_size := (320, 240), img_mode := ''P''\<rparr>"
  let ?out_big = "\<lparr>out_format = ''JPEG'', out_quality = 30, out_mode = ''RGB'',
                   out_size = (640, 480)\<rparr>"
  let ?out_small = "\<lparr>out_format = ''JPEG'', out_quality = 30, out_mode = ''RGB'',
                     out_size = (320, 240)\<rparr>"
  have contract: "\<forall>size img img1. Image_thumbnail ?lib size img = Inr img1 \<longrightarrow>
             fst (img_size img1) \<le> fst size \<and> snd (img_size img1) \<le> snd size
             \<and> (fst (img_size img) \<le> fst size \<and> snd (img_size img) \<le> snd size
                  \<longrightarrow> img_size img1 = img_size img)"
    by (auto simp add: pillow_def fit_def split: if_splits)
  have big: "thumbnail_image ?lib ?big = Inr ?out_big"
    by (simp add: thumbnail_image_def pillow_def fit_def save_def convert_def jpeg_640x480_def)
  have small: "thumbnail_image ?lib ?small = Inr ?out_small"
    by (simp add: thumbnail_image_def pillow_def fit_def save_def convert_def jpeg_640x480_def)
  have within: "fst (img_size ?small) \<le> fst (TARGET_RESOLUTION ?lib)
      \<and> snd (img_size ?small) \<le> snd (TARGET_RESOLUTION ?lib)"
    by (simp add: pillow_def)
  from thumbnail_image_within_envelope [OF contract big]
  have "fst (out_size ?out_big) \<le> fst (TARGET_RESOLUTION ?lib)
      \<and> snd (out_size ?out_big) \<le> snd (TARGET_RESOLUTION ?lib)"
    by blast
  moreover from thumbnail_image_within_envelope [OF contract small] within
  have "out_size ?out_small = img_size ?small"
    by blast
  ultimately show ?thesis
    using big small within by simp
qed

section \<open>The metadata events\<close>

text \<open>
  C5, as stated, fails: the retry notice that \<open>notify_retry\<close> enqueues has the fields
  \<open>url\<close>, \<open>uuid\<close>, \<open>source\<close> and \<open>attempts\<close>, and none named \<open>identifier\<close>.
\<close>

theorem notify_retry_fields_counterexample:
  "map field_names (messages (notify_retry ''id-1'' ''example'' ''https://example.gov/image.jpg'' 1
       (AsyncProducer_init idle ''retry'' 60)))
     = [[''url'', ''uuid'', ''source'', ''attempts'']]
   \<and> ''identifier'' \<notin> set (field_names (hd (messages
       (notify_retry ''id-1'' ''example'' ''https://example.gov/image.jpg'' 1
          (AsyncProducer_init idle ''retry'' 60)))))"
  by (simp add: notify_retry_def enqueue_message_def json_dumps_def AsyncProducer_init_def
      field_names_def)

text \<open>
  C5, amended: each codec function of \<open>worker/message.py\<close> enqueues the serialization
  of a dictionary with fixed keys. A quality update has \<open>height\<close>, \<open>width\<close>,
  \<open>identifier\<close>, \<open>filesize\<close> and \<open>compression_quality\<close>, the last one the probed integer
  or \<open>null\<close>; an EXIF update has \<open>identifier\<close> and \<open>exif\<close>, and is enqueued only when the
  image has EXIF items and all their values serialize; a link-rot notice has
  \<open>identifier\<close> and \<open>timestamp\<close>; a retry notice has \<open>url\<close>, \<open>uuid\<close> (the task's
  identifier), \<open>source\<close> and \<open>attempts\<close>.
\<close>

theorem event_wire_fields:
  "messages (snd (message_notify_quality wand img buffer identifier p)) =
     messages p @
       (case wand buffer of
          Inr q \<Rightarrow>
            [Json_utf8 (PyDict [(''height'', PyInt (fst (img_size img))),
                                (''width'', PyInt (snd (img_size img))),
                                (''identifier'', PyStr identifier),
                                (''filesize'', PyInt (int (length buffer))),
                                (''compression_quality'', PyInt q)])]
        | Inl e \<Rightarrow>
            if e = WandException then
              [Json_utf8 (PyDict [(''height'', PyInt (fst (img_size img))),
                                  (''width'', PyInt (snd (img_size img))),
                                  (''identifier'', PyStr identifier),
                                  (''filesize'', PyInt (int (length buffer))),
                                  (''compression_quality'', PyNone)])]
            else [])
   \<and> messages (message_notify_exif img identifier p) =
     messages p @
       (if info_exif img \<and> getexif_items img \<noteq> []
           \<and> list_all json_serializable (map snd (getexif_items img))
        then [Json_utf8 (PyDict [(''identifier'', PyStr identifier),
                                 (''exif'', PyDict (map (\<lambda>(k, v). (hex k, v)) (getexif_items img)))])]
        else [])
   \<and> messages (notify_404 utcnow identifier p) =
     messages p @
       [Json_utf8 (PyDict [(''identifier'', PyStr identifier), (''timestamp'', PyStr utcnow)])]
   \<and> messages (notify_retry identifier source url attempts p) =
     messages p @
       [Json_utf8 (PyDict [(''url'', PyStr url), (''uuid'', PyStr identifier),
                           (''source'', PyStr source), (''attempts'', PyInt attempts)])]"
proof -
  have snd_hex: "snd \<circ> (\<lambda>(k, v). (hex k, v)) = (snd :: int \<times> pyval \<Rightarrow> pyval)"
    by (auto simp add: fun_eq_iff)
  have quality: "messages (snd (message_notify_quality wand img buffer identifier p)) =
     messages p @
       (case wand buffer of
          Inr q \<Rightarrow>
            [Json_utf8 (PyDict [(''height'', PyInt (fst (img_size img))),
                                (''width'', PyInt (snd (img_size img))),
                                (''identifier'', PyStr identifier),
                                (''filesize'', PyInt (int (length buffer))),
                                (''compression_quality'', PyInt q)])]
        | Inl e \<Rightarrow>
            if e = WandException then
              [Json_utf8 (PyDict [(''height'', PyInt (fst (img_size img))),
                                  (''width'', PyInt (snd (img_size img))),
                                  (''identifier'', PyStr identifier),
                                  (''filesize'', PyInt (int (length buffer))),
                                  (''compression_quality'', PyNone)])]
            else [])"
    by (simp add: message_notify_quality_def enqueue_message_def json_dumps_def Let_def
        case_prod_beta split: sum.splits)
  have exif: "messages (message_notify_exif img identifier p) =
     messages p @
       (if info_exif img \<and> getexif_items img \<noteq> []
           \<and> list_all json_serializable (map snd (getexif_items img))
        then [Json_utf8 (PyDict [(''identifier'', PyStr identifier),
                                 (''exif'', PyDict (map (\<lambda>(k, v). (hex k, v)) (getexif_items img)))])]
        else [])"
    by (simp add: message_notify_exif_def enqueue_message_def json_dumps_def Let_def snd_hex)
  have rot: "messages (notify_404 utcnow identifier p) =
     messages p @
       [Json_utf8 (PyDict [(''identifier'', PyStr identifier), (''timestamp'', PyStr utcnow)])]"
    by (simp add: notify_404_def enqueue_message_def json_dumps_def)
  have retry: "messages (notify_retry identifier source url attempts p) =
     messages p @
       [Json_utf8 (PyDict [(''url'', PyStr url), (''uuid'', PyStr identifier),
                           (''source'', PyStr source), (''attempts'', PyInt attempts)])]"
    by (simp add: notify_retry_def enqueue_message_def json_dumps_def)
  from quality exif rot retry show ?thesis
    by blast
qed

text \<open>
  C6 fails on the code. For a decoded image 640 pixels wide and 480 pixels high, fetched
  as three bytes, \<open>notify_quality\<close> unpacks \<open>img.size\<close>, which is (width, height), into
  \<open>height, width\<close>: the event's \<open>height\<close> is 640 and its \<open>width\<close> is 480. The file
  size is right.
\<close>

theorem notify_quality_swaps_dimensions:
  "Image_width jpeg_640x480 = 640 \<and> Image_height jpeg_640x480 = 480
   \<and> message_notify_quality (\<lambda>b. Inr 75) jpeg_640x480 [255, 216, 255] ''id-1''
       (AsyncProducer_init idle ''meta'' 60)
     = (None,
        \<lparr>frequency = 60, producer = idle, topic_name = ''meta'',
         messages = [Json_utf8 (PyDict [(''height'', PyInt 640),
                                        (''width'', PyInt 480),
                                        (''identifier'', PyStr ''id-1''),
                                        (''filesize'', PyInt 3),
                                        (''compression_quality'', PyInt 75)])]\<rparr>)"
  by (simp add: Image_width_def Image_height_def jpeg_640x480_def message_notify_quality_def
      enqueue_message_def json_dumps_def AsyncProducer_init_def)

text \<open>
  C9 fails on the code. The image is fetched and decoded, an \<open>AsyncProducer\<close> is given as
  metadata producer, and the quality probe raises \<open>WandException\<close>. \<open>notify_quality\<close> of
  \<open>worker/image.py\<close> catches the exception and sets the compression quality to \<open>None\<close>,
  but then calls \<open>notify_image_quality_update\<close>, which an \<open>AsyncProducer\<close> does not have:
  \<open>process_image\<close> raises \<open>AttributeError\<close> to its caller, no quality update is enqueued,
  and neither thumbnail nor persister is reached. \<open>notify_quality\<close> of
  \<open>worker/message.py\<close>, on the same image and producer, enqueues the update with
  \<open>compression_quality\<close> \<open>null\<close> and returns.
\<close>

theorem probe_failure_then_attribute_error:
  "process_image (pillow (\<lambda>b. Inr jpeg_640x480) (\<lambda>b. Inl WandException)) (\<lambda>img i. None)
       (fetched 200 [255, 216, 255]) ''https://example.gov/hello.jpg'' ''id-1'' ''example''
       (fresh (Some (AsyncProducer_init idle ''meta'' 60)))
     = (Some AttributeError,
        \<lparr>stats = [], sink = Some (AsyncProducer_init idle ''meta'' 60),
         executor = [Run_Image_open], persisted = []\<rparr>)
   \<and> message_notify_quality (\<lambda>b. Inl WandException) jpeg_640x480 [255, 216, 255] ''id-1''
       (AsyncProducer_init idle ''meta'' 60)
     = (None,
        \<lparr>frequency = 60, producer = idle, topic_name = ''meta'',
         messages = [Json_utf8 (PyDict [(''height'', PyInt 640),
                                        (''width'', PyInt 480),
                                        (''identifier'', PyStr ''id-1''),
                                        (''filesize'', PyInt 3),
                                        (''compression_quality'', PyNone)])]\<rparr>)"
  by (simp add: process_image_unfold message_notify_quality_def enqueue_message_def
      json_dumps_def AsyncProducer_init_def)

section \<open>Inbound messages\<close>

text \<open>
  C10, as stated, fails: \<open>parse_message\<close> is not total. The payload consisting of the
  byte \<open>0xFF\<close> is not UTF-8; \<open>str\<close> raises \<open>UnicodeDecodeError\<close>, which the handler for
  \<open>json.JSONDecodeError\<close> does not catch, before \<open>json.loads\<close> is called.
\<close>

theorem parse_message_total_counterexample:
  "parse_message loads_example \<lparr>msg_value = Some [255]\<rparr> = Inl UnicodeDecodeError"
  by (simp add: parse_message_def str_utf8_def)

text \<open>
  C10, amended: for a message whose payload is valid UTF-8, \<open>parse_message\<close> returns the
  decoded value when \<open>json.loads\<close> returns it and returns \<open>None\<close> when \<open>json.loads\<close>
  raises \<open>JSONDecodeError\<close>; and for no message at all does it raise \<open>JSONDecodeError\<close>.
\<close>

theorem parse_message_valid_utf8:
  assumes "str_utf8 b = Inr text"
  shows "(json_loads text = Inr decoded
            \<longrightarrow> parse_message json_loads \<lparr>msg_value = Some b\<rparr> = Inr decoded)
     \<and> (json_loads text = Inl JSONDecodeError
            \<longrightarrow> parse_message json_loads \<lparr>msg_value = Some b\<rparr> = Inr PyNone)
     \<and> parse_message json_loads msg \<noteq> Inl JSONDecodeError"
proof -
  have "str_utf8 c \<noteq> Inl JSONDecodeError" for c
    by (simp add: str_utf8_def split: option.splits)
  then have "parse_message json_loads msg \<noteq> Inl JSONDecodeError"
    by (auto simp add: parse_message_def split: option.splits sum.splits)
  with assms show ?thesis
    by (simp add: parse_message_def)
qed

theorem parse_message_valid_utf8_witness:
  "str_utf8 [49] = Inr [49] \<and> loads_example [49] = Inr (PyInt 1)
   \<and> parse_message loads_example \<lparr>msg_value = Some [49]\<rparr> = Inr (PyInt 1)
   \<and> str_utf8 [123] = Inr [123] \<and> loads_example [123] = Inl JSONDecodeError
   \<and> parse_message loads_example \<lparr>msg_value = Some [123]\<rparr> = Inr PyNone"
proof -
  have a: "str_utf8 [49] = Inr [49]" and b: "str_utf8 [123] = Inr [123]"
    by (simp_all add: str_utf8_def)
  have c: "loads_example [49] = Inr (PyInt 1)" and d: "loads_example [123] = Inl JSONDecodeError"
    by (simp_all add: loads_example_def)
  from parse_message_valid_utf8 [OF a, of loads_example "PyInt 1"] c
  have "parse_message loads_example \<lparr>msg_value = Some [49]\<rparr> = Inr (PyInt 1)"
    by blast
  moreover from parse_message_valid_utf8 [OF b, of loads_example] d
  have "parse_message loads_example \<lparr>msg_value = Some [123]\<rparr> = Inr PyNone"
    by blast
  ultimately show ?thesis
    using a b c d by blast
qed

end
